theory Spec2Isabelle
  imports Complex_Main
begin

section \<open>The Spark recommendation job (data-pipeline/spark/jobs/recommendations.py)\<close>

text \<open>
  Python and Spark doubles are modelled as rationals: every constant the job uses here
  (1.0, 0.9, 0.7, 0.5, 0.8 and the ratings 1.0 to 5.0) is written as the decimal fraction of
  the source, and products are taken in the order of the source expression.
  SQL NULL is \<open>None\<close>.
\<close>

subsection \<open>Engine parameters read by \<open>__init__\<close>\<close>

type_synonym config = "string \<rightharpoonup> rat"

record RecommendationEngine =
  als_rank :: rat
  als_iterations :: rat
  als_reg_param :: rat
  kmeans_k :: rat
  num_recommendations :: rat
  min_interactions :: rat
  recency_weight :: rat

text \<open>\<open>config.get(key, default)\<close>\<close>

definition config_get :: "config \<Rightarrow> string \<Rightarrow> rat \<Rightarrow> rat" where
  "config_get config key dflt = (case config key of None \<Rightarrow> dflt | Some v \<Rightarrow> v)"

definition init_engine :: "config \<Rightarrow> RecommendationEngine" where
  "init_engine config =
     \<lparr> als_rank = config_get config ''als_rank'' 50,
       als_iterations = config_get config ''als_iterations'' 10,
       als_reg_param = config_get config ''als_reg_param'' (1 / 100),
       kmeans_k = config_get config ''kmeans_clusters'' 10,
       num_recommendations = config_get config ''num_recommendations'' 20,
       min_interactions = config_get config ''min_interactions'' 5,
       recency_weight = config_get config ''recency_weight'' (8 / 10) \<rparr>"

subsection \<open>The rating column of \<open>interactions_query\<close>\<close>

text \<open>
  The CASE expression of \<open>interactions_query\<close> over the joined row: \<open>r.id\<close> (redemption),
  \<open>f.id\<close> (favorite) and \<open>v.view_count\<close> (partner view), each NULL when the LEFT JOIN found
  no such row. A comparison with NULL is not true, so a missing view count reaches ELSE.
  The query also selects \<open>p.id\<close>, although its FROM clause joins no table \<open>p\<close>; what is
  modelled is the CASE expression on a joined row, not the execution of the query.
\<close>

definition interactions_query_rating :: "nat option \<Rightarrow> nat option \<Rightarrow> int option \<Rightarrow> rat" where
  "interactions_query_rating r_id f_id view_count =
     (if r_id \<noteq> None then 5
      else if f_id \<noteq> None then 4
      else if (case view_count of None \<Rightarrow> False | Some c \<Rightarrow> c > 5) then 3
      else if (case view_count of None \<Rightarrow> False | Some c \<Rightarrow> c > 2) then 2
      else 1)"

subsection \<open>\<open>preprocess_data\<close>: recency weighting and the active-user filter\<close>

text \<open>
  A row of \<open>interactions_df\<close>. \<open>datediff\<close> looks at the date part of a timestamp only, so
  the timestamp is its day number. The user profile columns the query also selects
  (language, city, age group, subscription tier) pass through \<open>preprocess_data\<close> untouched
  and are left out.
\<close>

record interaction =
  user_id :: nat
  partner_id :: nat
  rating :: rat
  timestamp :: "int option"

text \<open>The row after the three \<open>withColumn\<close> calls.\<close>

record weighted_interaction =
  w_user_id :: nat
  w_partner_id :: nat
  w_rating :: rat
  w_timestamp :: "int option"
  days_ago :: "int option"
  recency_weight_col :: rat
  weighted_rating :: rat

text \<open>\<open>F.datediff(current_timestamp, timestamp)\<close>: NULL on a NULL timestamp.\<close>

definition datediff :: "int \<Rightarrow> int option \<Rightarrow> int option" where
  "datediff now ts = (case ts of None \<Rightarrow> None | Some t \<Rightarrow> Some (now - t))"

text \<open>
  \<open>F.when(days_ago <= 7, 1.0).when(days_ago <= 30, 0.9).when(days_ago <= 90, 0.7).otherwise(0.5)\<close>:
  the first condition that is true decides; on NULL no condition is true.
\<close>

definition le_col :: "int option \<Rightarrow> int \<Rightarrow> bool" where
  "le_col c k = (case c of None \<Rightarrow> False | Some d \<Rightarrow> d \<le> k)"

definition recency_step :: "int option \<Rightarrow> rat" where
  "recency_step d =
     (if le_col d 7 then 1
      else if le_col d 30 then 9 / 10
      else if le_col d 90 then 7 / 10
      else 1 / 2)"

definition with_recency :: "RecommendationEngine \<Rightarrow> int \<Rightarrow> interaction \<Rightarrow> weighted_interaction" where
  "with_recency self now i =
     (let d = datediff now (timestamp i); w = recency_step d
      in \<lparr> w_user_id = user_id i, w_partner_id = partner_id i, w_rating = rating i,
           w_timestamp = timestamp i, days_ago = d, recency_weight_col = w,
           weighted_rating = rating i * w * recency_weight self \<rparr>)"

text \<open>\<open>groupBy('user_id').agg(F.count('*'))\<close>: one row per user id, with its row count.\<close>

definition interaction_count :: "weighted_interaction list \<Rightarrow> (nat \<times> nat) list" where
  "interaction_count df =
     map (\<lambda>u. (u, length (filter (\<lambda>r. w_user_id r = u) df))) (remdups (map w_user_id df))"

definition active_users :: "RecommendationEngine \<Rightarrow> weighted_interaction list \<Rightarrow> nat list" where
  "active_users self df =
     map fst (filter (\<lambda>(u, c). of_nat c \<ge> min_interactions self) (interaction_count df))"

text \<open>The inner join on \<open>user_id\<close>: one output row per matching pair.\<close>

definition inner_join :: "weighted_interaction list \<Rightarrow> nat list \<Rightarrow> weighted_interaction list" where
  "inner_join df us = concat (map (\<lambda>r. map (\<lambda>u. r) (filter (\<lambda>u. u = w_user_id r) us)) df)"

definition preprocess_data :: "RecommendationEngine \<Rightarrow> int \<Rightarrow> interaction list \<Rightarrow> weighted_interaction list" where
  "preprocess_data self now interactions_df =
     (let df = map (with_recency self now) interactions_df
      in inner_join df (active_users self df))"

section \<open>Exceptions\<close>

text \<open>
  Exceptions are values. \<open>KeyError\<close> is what pandas raises for a column label a frame does
  not have, \<open>HTTPException\<close> is what the backend raises. \<open>DataIntegrityError\<close> is the name
  the specification gives to the failure on empty input; no file of the repository defines
  or raises it: it is here so that statements about it can be written down.
\<close>

datatype error = DataIntegrityError | KeyError string | HTTPException nat string

section \<open>The model trainer (ml/models/recommendation/train.py)\<close>

subsection \<open>The \<open>implicit_rating\<close> column of \<open>fetch_training_data\<close>\<close>

text \<open>
  The CASE over \<open>user_partner_count\<close>, the number of completed transactions of the user
  at the partner in the window (a window COUNT, never NULL).
\<close>

definition implicit_rating_case :: "int \<Rightarrow> rat" where
  "implicit_rating_case user_partner_count =
     (if user_partner_count > 3 then 5
      else if user_partner_count > 2 then 4
      else if user_partner_count > 1 then 3
      else 2)"

subsection \<open>\<open>create_user_item_matrix\<close>\<close>

text \<open>
  The three columns of the feature table that \<open>create_user_item_matrix\<close> reads.
\<close>

record training_row =
  t_user_id :: nat
  t_partner_id :: nat
  implicit_rating :: rat

text \<open>
  \<open>df.pivot_table(index='user_id', columns='partner_id', values='implicit_rating',
  fill_value=0)\<close> is called without \<open>aggfunc\<close>, so pandas aggregates the values of one
  (user, partner) group with its default, the mean. The index and the columns are the
  sorted distinct keys; a pair with no row is filled with 0.
\<close>

definition group_values :: "training_row list \<Rightarrow> nat \<Rightarrow> nat \<Rightarrow> rat list" where
  "group_values df u p =
     map implicit_rating (filter (\<lambda>r. t_user_id r = u \<and> t_partner_id r = p) df)"

definition mean :: "rat list \<Rightarrow> rat" where
  "mean vs = sum_list vs / of_nat (length vs)"

definition pivot_index :: "training_row list \<Rightarrow> nat list" where
  "pivot_index df = sort (remdups (map t_user_id df))"

definition pivot_columns :: "training_row list \<Rightarrow> nat list" where
  "pivot_columns df = sort (remdups (map t_partner_id df))"

definition pivot_cell :: "training_row list \<Rightarrow> nat \<Rightarrow> nat \<Rightarrow> rat" where
  "pivot_cell df u p = (let vs = group_values df u p in if vs = [] then 0 else mean vs)"

definition pivot_values :: "training_row list \<Rightarrow> rat list list" where
  "pivot_values df = map (\<lambda>u. map (\<lambda>p. pivot_cell df u p) (pivot_columns df)) (pivot_index df)"

text \<open>
  The frame that \<open>fetch_training_data\<close> hands on, \<open>pd.DataFrame(data)\<close> of the fetched
  records: with no record it has no column at all; otherwise it has the columns of the
  records and at least one row.
\<close>

datatype training_frame = No_Columns | Feature_Rows training_row "training_row list"

definition DataFrame :: "training_row list \<Rightarrow> training_frame" where
  "DataFrame data = (case data of [] \<Rightarrow> No_Columns | r # rs \<Rightarrow> Feature_Rows r rs)"

definition frame_rows :: "training_frame \<Rightarrow> training_row list" where
  "frame_rows df = (case df of No_Columns \<Rightarrow> [] | Feature_Rows r rs \<Rightarrow> r # rs)"

text \<open>
  The pivoted frame: its index, its columns and its values. \<open>pivot_table\<close> first looks for
  the label passed as \<open>values\<close> among the columns of the frame and raises
  \<open>KeyError('implicit_rating')\<close> when it is not there, as in a frame with no columns.
\<close>

record pivot_frame =
  pv_index :: "nat list"
  pv_columns :: "nat list"
  pv_values :: "rat list list"

definition pivot_table :: "training_frame \<Rightarrow> error + pivot_frame" where
  "pivot_table df =
     (case df of
        No_Columns \<Rightarrow> Inl (KeyError ''implicit_rating'')
      | Feature_Rows r rs \<Rightarrow>
          Inr \<lparr> pv_index = pivot_index (r # rs), pv_columns = pivot_columns (r # rs),
                pv_values = pivot_values (r # rs) \<rparr>)"

text \<open>
  The mappings the trainer stores on itself. A dictionary is kept as its list of items in
  insertion order and read with \<open>map_of\<close>; the keys built here are distinct.
\<close>

record RecommendationModelTrainer =
  user_mapping :: "(nat \<times> nat) list"
  item_mapping :: "(nat \<times> nat) list"
  reverse_item_mapping :: "(nat \<times> nat) list"

text \<open>\<open>{key: idx for idx, key in enumerate(keys)}\<close>\<close>

definition index_mapping :: "nat list \<Rightarrow> (nat \<times> nat) list" where
  "index_mapping keys = map (\<lambda>(idx, key). (key, idx)) (enumerate 0 keys)"

text \<open>
  \<open>csr_matrix\<close> holds the same matrix as the dense array it is built from (it stores the
  non-zero cells only), so the matrix is kept as the dense array: a list of rows. The
  function has no check and no handler of its own: an exception of \<open>pivot_table\<close> leaves it.
\<close>

definition create_user_item_matrix ::
  "RecommendationModelTrainer \<Rightarrow> training_frame
     \<Rightarrow> error + (rat list list \<times> RecommendationModelTrainer)" where
  "create_user_item_matrix self df =
     (case pivot_table df of
        Inl e \<Rightarrow> Inl e
      | Inr user_item_df \<Rightarrow>
          (let user_item_matrix = pv_values user_item_df;
               item_mapping' = index_mapping (pv_columns user_item_df)
           in Inr (user_item_matrix,
                   self\<lparr> user_mapping := index_mapping (pv_index user_item_df),
                         item_mapping := item_mapping',
                         reverse_item_mapping := map (\<lambda>(item, idx). (idx, item)) item_mapping' \<rparr>)))"

section \<open>The serving backend (backend_fixed_full.py)\<close>

subsection \<open>Data models and the in-memory database\<close>

text \<open>
  The pydantic models, field for field, with a prefix per class (\<open>u_\<close>, \<open>p_\<close>, \<open>t_\<close>,
  \<open>r_\<close>). Floats are rationals.
\<close>

record User =
  u_id :: string
  u_name :: string
  u_email :: string
  u_membership_type :: string
  u_joined_date :: string
  u_total_savings :: rat
  u_visits_count :: int
  u_favorite_categories :: "string list"

record Partner =
  p_id :: string
  p_name :: string
  p_category :: string
  p_discount :: string
  p_description :: string
  p_rating :: rat
  p_reviews_count :: int
  p_location :: string
  p_image_url :: "string option"
  p_tags :: "string list"

record Transaction =
  tx_id :: string
  tx_user_id :: string
  tx_partner_id :: string
  tx_amount :: rat
  tx_discount_applied :: rat
  tx_timestamp :: string

record Review =
  r_id :: string
  r_user_id :: string
  r_partner_id :: string
  r_rating :: int
  r_comment :: string
  r_timestamp :: string

text \<open>
  \<open>Database\<close>: the dictionaries \<open>users\<close>, \<open>partners\<close> and \<open>sessions\<close> as their items in
  insertion order (the order \<open>.values()\<close> iterates in), the lists \<open>transactions\<close> and
  \<open>reviews\<close>.
\<close>

record Database =
  users :: "(string \<times> User) list"
  partners :: "(string \<times> Partner) list"
  transactions :: "Transaction list"
  reviews :: "Review list"
  sessions :: "(string \<times> string) list"

text \<open>Python truthiness of an optional string: \<open>None\<close> and the empty string are false.\<close>

definition truthy :: "string option \<Rightarrow> bool" where
  "truthy s = (case s of None \<Rightarrow> False | Some v \<Rightarrow> v \<noteq> [])"

definition get_current_user :: "Database \<Rightarrow> string option \<Rightarrow> string option" where
  "get_current_user db token =
     (if \<not> truthy token \<or> the token \<notin> fst ` set (sessions db) then None
      else map_of (sessions db) (the token))"

subsection \<open>\<open>get_recommendations\<close>\<close>

record recommendations_response =
  recommendations :: "Partner list"
  reason :: string

definition category_partners :: "Database \<Rightarrow> string \<Rightarrow> Partner list" where
  "category_partners db category = filter (\<lambda>p. p_category p = category) (map snd (partners db))"

text \<open>
  The loop over \<open>user.favorite_categories\<close> extends the list by the first three partners of
  each category, in order.
\<close>

definition favorite_recommendations :: "Database \<Rightarrow> User \<Rightarrow> Partner list" where
  "favorite_recommendations db user =
     concat (map (\<lambda>category. take 3 (category_partners db category)) (u_favorite_categories user))"

definition get_recommendations :: "Database \<Rightarrow> string option \<Rightarrow> error + recommendations_response" where
  "get_recommendations db token =
     (let user_id = get_current_user db token
      in if \<not> truthy user_id
         then Inr \<lparr> recommendations = take 6 (map snd (partners db)), reason = ''Popular choices'' \<rparr>
         else (case map_of (users db) (the user_id) of
                 None \<Rightarrow> Inl (HTTPException 404 ''User not found'')
               | Some user \<Rightarrow>
                   Inr \<lparr> recommendations = take 6 (favorite_recommendations db user),
                         reason = ''Based on your preferences'' \<rparr>))"

subsection \<open>\<open>create_review\<close>\<close>

text \<open>\<open>str(n)\<close> for a natural number: its decimal digits.\<close>

definition digit_char :: "nat \<Rightarrow> char" where
  "digit_char d = ''0123456789'' ! d"

function str :: "nat \<Rightarrow> string" where
  "str n = (if n < 10 then [digit_char n] else str (n div 10) @ [digit_char (n mod 10)])"
  by pat_completeness auto
termination
  by (relation "measure id") auto

declare str.simps [simp del]

text \<open>
  The request body: a dictionary with the keys \<open>partner_id\<close>, \<open>rating\<close> and \<open>comment\<close> that
  the \<open>Review\<close> model accepts (an integer rating).
\<close>

record review_body =
  b_partner_id :: string
  b_rating :: int
  b_comment :: string

record review_response =
  review :: Review
  message :: string

text \<open>
  \<open>partner.rating = ...\<close> assigns to the object held by the dictionary: the entry of that
  key changes in place.
\<close>

definition update_partner :: "string \<Rightarrow> (Partner \<Rightarrow> Partner) \<Rightarrow> (string \<times> Partner) list \<Rightarrow> (string \<times> Partner) list" where
  "update_partner k f ps = map (\<lambda>(k', p). if k' = k then (k', f p) else (k', p)) ps"

text \<open>\<open>now\<close> is \<open>datetime.now().isoformat()\<close> at the call.\<close>

definition create_review ::
  "Database \<Rightarrow> string \<Rightarrow> review_body \<Rightarrow> string option \<Rightarrow> error + (Database \<times> review_response)" where
  "create_review db now body token =
     (let user_id = get_current_user db token
      in if \<not> truthy user_id then Inl (HTTPException 401 ''Unauthorized'')
         else
           let new_review = \<lparr> r_id = str (length (reviews db) + 1), r_user_id = the user_id,
                               r_partner_id = b_partner_id body, r_rating = b_rating body,
                               r_comment = b_comment body, r_timestamp = now \<rparr>;
               db1 = db\<lparr> reviews := reviews db @ [new_review] \<rparr>;
               db2 = (case map_of (partners db1) (b_partner_id body) of
                        None \<Rightarrow> db1
                      | Some partner \<Rightarrow>
                          db1\<lparr> partners := update_partner (b_partner_id body)
                                 (\<lambda>p. p\<lparr> p_reviews_count := p_reviews_count p + 1,
                                          p_rating := (p_rating p + of_int (b_rating body)) / 2 \<rparr>)
                                 (partners db1) \<rparr>)
           in Inr (db2, \<lparr> review = new_review, message = ''Review submitted successfully'' \<rparr>))"

text \<open>
  A client submitting reviews one after the other with the same token; the first
  exception ends the sequence.
\<close>

fun submit_reviews :: "Database \<Rightarrow> string \<Rightarrow> string option \<Rightarrow> review_body list \<Rightarrow> error + Database" where
  "submit_reviews db now token [] = Inr db"
| "submit_reviews db now token (body # bodies) =
     (case create_review db now body token of
        Inl e \<Rightarrow> Inl e
      | Inr (db', _) \<Rightarrow> submit_reviews db' now token bodies)"

text \<open>The rating the store holds for a partner id.\<close>

definition stored_rating :: "Database \<Rightarrow> string \<Rightarrow> rat option" where
  "stored_rating db pid = map_option p_rating (map_of (partners db) pid)"

section \<open>Example data\<close>

text \<open>
  Concrete inputs on which the theorems below are instantiated. The engine is configured
  with \<open>min_interactions = 2\<close> and every other parameter at its default; day 100 is today.
\<close>

definition example_engine :: RecommendationEngine where
  "example_engine = init_engine (Map.empty(''min_interactions'' \<mapsto> 2))"

definition example_interactions :: "interaction list" where
  "example_interactions =
     [\<lparr> user_id = 1, partner_id = 10, rating = 5, timestamp = Some 97 \<rparr>,
      \<lparr> user_id = 1, partner_id = 11, rating = 3, timestamp = Some 60 \<rparr>,
      \<lparr> user_id = 2, partner_id = 10, rating = 4, timestamp = Some 99 \<rparr>]"

definition recent_row :: weighted_interaction where
  "recent_row = \<lparr> w_user_id = 1, w_partner_id = 10, w_rating = 5, w_timestamp = Some 97,
       days_ago = Some 3, recency_weight_col = 1, weighted_rating = 4 \<rparr>"

definition older_row :: weighted_interaction where
  "older_row = \<lparr> w_user_id = 1, w_partner_id = 11, w_rating = 3, w_timestamp = Some 60,
       days_ago = Some 40, recency_weight_col = 7 / 10, weighted_rating = 42 / 25 \<rparr>"

text \<open>A trainer before any matrix was built, and feature rows with a repeated pair.\<close>

definition new_trainer :: RecommendationModelTrainer where
  "new_trainer = \<lparr> user_mapping = [], item_mapping = [], reverse_item_mapping = [] \<rparr>"

definition duplicate_rows :: "training_row list" where
  "duplicate_rows =
     [\<lparr> t_user_id = 1, t_partner_id = 7, implicit_rating = 2 \<rparr>,
      \<lparr> t_user_id = 1, t_partner_id = 7, implicit_rating = 4 \<rparr>,
      \<lparr> t_user_id = 2, t_partner_id = 8, implicit_rating = 5 \<rparr>]"

definition spa1 :: Partner where
  "spa1 = \<lparr> p_id = ''1'', p_name = ''Spa Sofia 1'', p_category = ''Wellness & Spa'',
      p_discount = ''15%'', p_description = ''Premium wellness & spa experience'',
      p_rating = 4, p_reviews_count = 20, p_location = ''Sofia'', p_image_url = None,
      p_tags = [''wellness-&-spa'', ''premium'', ''exclusive''] \<rparr>"

definition cinema2 :: Partner where
  "cinema2 = \<lparr> p_id = ''2'', p_name = ''Cinema Varna 1'', p_category = ''Entertainment'',
      p_discount = ''16%'', p_description = ''Premium entertainment experience'',
      p_rating = 9 / 2, p_reviews_count = 23, p_location = ''Varna'', p_image_url = None,
      p_tags = [''entertainment'', ''premium'', ''exclusive''] \<rparr>"

definition example_user :: "string \<Rightarrow> string list \<Rightarrow> User" where
  "example_user uid favorites =
     \<lparr> u_id = uid, u_name = ''Maria Popova'', u_email = ''maria@example.com'',
       u_membership_type = ''premium'', u_joined_date = ''2024-01-15'',
       u_total_savings = 2501 / 2, u_visits_count = 45, u_favorite_categories = favorites \<rparr>"

text \<open>
  A store with one user (id 1, with the given favorite categories), two partners and two
  sessions: the session of \<open>tok1\<close> names user 1, the session of \<open>tok9\<close> names a user id
  that has no stored profile.
\<close>

definition example_db :: "string list \<Rightarrow> Database" where
  "example_db favorites =
     \<lparr> users = [(''1'', example_user ''1'' favorites)],
       partners = [(''1'', spa1), (''2'', cinema2)],
       transactions = [], reviews = [],
       sessions = [(''tok1'', ''1''), (''tok9'', ''9'')] \<rparr>"

text \<open>
  A larger store: eleven partners of three categories in mixed order (four of fine dining,
  four luxury hotels, three of entertainment) and one user whose favorite categories are
  all three, logged in under \<open>tok1\<close>.
\<close>

definition example_partner :: "string \<Rightarrow> string \<Rightarrow> Partner" where
  "example_partner pid category =
     \<lparr> p_id = pid, p_name = ''Partner'', p_category = category, p_discount = ''15%'',
       p_description = ''Premium experience with exclusive member benefits'',
       p_rating = 4, p_reviews_count = 20, p_location = ''Sofia'', p_image_url = None,
       p_tags = [''premium'', ''exclusive''] \<rparr>"

definition catalog_user :: User where
  "catalog_user = example_user ''1'' [''Fine Dining'', ''Luxury Hotels'', ''Entertainment'']"

definition catalog_db :: Database where
  "catalog_db =
     \<lparr> users = [(''1'', catalog_user)],
       partners =
         [(''1'', example_partner ''1'' ''Fine Dining''),
          (''2'', example_partner ''2'' ''Luxury Hotels''),
          (''3'', example_partner ''3'' ''Fine Dining''),
          (''4'', example_partner ''4'' ''Entertainment''),
          (''5'', example_partner ''5'' ''Luxury Hotels''),
          (''6'', example_partner ''6'' ''Fine Dining''),
          (''7'', example_partner ''7'' ''Entertainment''),
          (''8'', example_partner ''8'' ''Luxury Hotels''),
          (''9'', example_partner ''9'' ''Fine Dining''),
          (''10'', example_partner ''10'' ''Luxury Hotels''),
          (''11'', example_partner ''11'' ''Entertainment'')],
       transactions = [], reviews = [],
       sessions = [(''tok1'', ''1'')] \<rparr>"

text \<open>What that user is recommended: three of fine dining, then three luxury hotels.\<close>

definition catalog_recommendations :: "Partner list" where
  "catalog_recommendations =
     [example_partner ''1'' ''Fine Dining'', example_partner ''3'' ''Fine Dining'',
      example_partner ''6'' ''Fine Dining'', example_partner ''2'' ''Luxury Hotels'',
      example_partner ''5'' ''Luxury Hotels'', example_partner ''8'' ''Luxury Hotels'']"

text \<open>A review of partner 1 with the given number of stars.\<close>

definition review_of :: "int \<Rightarrow> review_body" where
  "review_of stars = \<lparr> b_partner_id = ''1'', b_rating = stars, b_comment = ''visited'' \<rparr>"

section \<open>Properties of the Spark job\<close>

text \<open>The parameters of an engine built from a configuration that sets none of them.\<close>

lemma default_parameters:
  "init_engine Map.empty =
     \<lparr> als_rank = 50, als_iterations = 10, als_reg_param = 1 / 100, kmeans_k = 10,
       num_recommendations = 20, min_interactions = 5, recency_weight = 8 / 10 \<rparr>"
  by (simp add: init_engine_def config_get_def)

lemma recency_step_Some:
  "recency_step (Some d) =
     (if d \<le> 7 then 1 else if d \<le> 30 then 9 / 10 else if d \<le> 90 then 7 / 10 else 1 / 2)"
  by (simp add: recency_step_def le_col_def)

lemma recency_step_antimono: "d1 \<le> d2 \<Longrightarrow> recency_step (Some d2) \<le> recency_step (Some d1)"
  by (simp add: recency_step_Some)

lemma set_inner_join: "set (inner_join df us) = {r \<in> set df. w_user_id r \<in> set us}"
  by (auto simp: inner_join_def)

lemma preprocess_row:
  assumes "r \<in> set (preprocess_data self now df)"
  shows "\<exists>i \<in> set df. r = with_recency self now i"
  using assms by (auto simp: preprocess_data_def Let_def set_inner_join)

lemmas preprocess_defs =
  preprocess_data_def with_recency_def inner_join_def active_users_def interaction_count_def
  init_engine_def config_get_def datediff_def recency_step_def le_col_def Let_def

lemma example_preprocessed:
  "preprocess_data example_engine 100 example_interactions = [recent_row, older_row]"
  by (simp add: example_engine_def example_interactions_def recent_row_def older_row_def
      preprocess_defs)

lemma preprocess_row_cols:
  assumes "r \<in> set (preprocess_data self now df)"
  shows "days_ago r = datediff now (w_timestamp r)"
    and "recency_weight_col r = recency_step (days_ago r)"
    and "weighted_rating r = w_rating r * recency_weight_col r * recency_weight self"
  using preprocess_row [OF assms] by (auto simp: with_recency_def Let_def)

text \<open>
  Claim C1. The recency weight that \<open>preprocess_data\<close> assigns to an interaction with a
  timestamp is 1.0 when its age in days is at most 7, 0.9 when at most 30, 0.7 when at most
  90 and 0.5 otherwise; of two interactions, the older one never gets the strictly larger
  weight; and every row of the result carries the weight assigned to its interaction.
\<close>

theorem recency_weight_step_function:
  assumes "timestamp i1 = Some t1" and "timestamp i2 = Some t2"
  shows "recency_weight_col (with_recency self now i1) =
           (if now - t1 \<le> 7 then 1 else if now - t1 \<le> 30 then 9 / 10
            else if now - t1 \<le> 90 then 7 / 10 else 1 / 2)
         \<and> (now - t1 \<le> now - t2 \<longrightarrow>
              recency_weight_col (with_recency self now i2) \<le> recency_weight_col (with_recency self now i1))
         \<and> set (preprocess_data self now df) \<subseteq> with_recency self now ` set df"
proof -
  have w1: "recency_weight_col (with_recency self now i1) = recency_step (Some (now - t1))"
    using assms(1) by (simp add: with_recency_def datediff_def Let_def)
  have w2: "recency_weight_col (with_recency self now i2) = recency_step (Some (now - t2))"
    using assms(2) by (simp add: with_recency_def datediff_def Let_def)
  have sub: "set (preprocess_data self now df) \<subseteq> with_recency self now ` set df"
    using preprocess_row by blast
  show ?thesis
    unfolding w1 w2 using recency_step_antimono [of "now - t1" "now - t2"] sub
    by (simp add: recency_step_Some)
qed

theorem recency_weight_step_function_witness:
  "timestamp (example_interactions ! 0) = Some 97
   \<and> timestamp (example_interactions ! 1) = Some 60
   \<and> with_recency example_engine 100 (example_interactions ! 0) = recent_row
   \<and> with_recency example_engine 100 (example_interactions ! 1) = older_row
   \<and> recency_weight_col recent_row = 1
   \<and> recency_weight_col older_row = 7 / 10
   \<and> recency_weight_col older_row \<le> recency_weight_col recent_row
   \<and> preprocess_data example_engine 100 example_interactions = [recent_row, older_row]"
proof -
  have t1: "timestamp (example_interactions ! 0) = Some 97"
    and t2: "timestamp (example_interactions ! 1) = Some 60"
    by (simp_all add: example_interactions_def)
  have r1: "with_recency example_engine 100 (example_interactions ! 0) = recent_row"
    and r2: "with_recency example_engine 100 (example_interactions ! 1) = older_row"
    by (simp_all add: example_interactions_def example_engine_def recent_row_def older_row_def
        preprocess_defs)
  from recency_weight_step_function [OF t1 t2, of example_engine 100 example_interactions]
       recency_weight_step_function [OF t2 t1, of example_engine 100 example_interactions]
       t1 t2 example_preprocessed
  show ?thesis unfolding r1 r2 by simp
qed

text \<open>
  Claim C10. The weighted rating of every row is rating times recency weight times the
  engine's \<open>recency_weight\<close> parameter; the recency weight is one of 1.0, 0.9, 0.7, 0.5; and
  when the configuration has no key \<open>recency_weight\<close> the parameter is 0.8, so the
  weighted rating is rating times recency weight times 0.8.
\<close>

theorem weighted_rating_formula:
  assumes "r \<in> set (preprocess_data (init_engine config) now df)"
  shows "weighted_rating r = w_rating r * recency_weight_col r * recency_weight (init_engine config)
         \<and> recency_weight_col r \<in> {1, 9 / 10, 7 / 10, 1 / 2}
         \<and> (config ''recency_weight'' = None \<longrightarrow>
              weighted_rating r = w_rating r * recency_weight_col r * (8 / 10))"
proof -
  have "recency_weight_col r \<in> {1, 9 / 10, 7 / 10, 1 / 2}"
    using preprocess_row_cols(2) [OF assms] by (simp add: recency_step_def)
  moreover have "config ''recency_weight'' = None \<Longrightarrow> recency_weight (init_engine config) = 8 / 10"
    by (simp add: init_engine_def config_get_def)
  ultimately show ?thesis
    using preprocess_row_cols(3) [OF assms] by simp
qed

theorem weighted_rating_formula_witness:
  "older_row \<in> set (preprocess_data (init_engine (Map.empty(''min_interactions'' \<mapsto> 2))) 100 example_interactions)
   \<and> (Map.empty(''min_interactions'' \<mapsto> 2 :: rat)) ''recency_weight'' = None
   \<and> weighted_rating older_row = 3 * (7 / 10) * (8 / 10)"
proof -
  have m: "older_row \<in> set (preprocess_data (init_engine (Map.empty(''min_interactions'' \<mapsto> 2))) 100 example_interactions)"
    using example_preprocessed by (simp add: example_engine_def)
  have c: "(Map.empty(''min_interactions'' \<mapsto> 2 :: rat)) ''recency_weight'' = None"
    by simp
  from weighted_rating_formula [OF m] m c show ?thesis
    by (simp add: older_row_def)
qed

text \<open>
  Claim C3 as stated fails for the trainer's rows: there the rating follows the number of
  completed transactions of the pair, not an event type. A single completed transaction
  gives 2, four give 5.
\<close>

theorem transaction_count_decides_rating:
  "implicit_rating_case 1 = 2
   \<and> implicit_rating_case 1 \<noteq> 5
   \<and> implicit_rating_case 4 = 5
   \<and> implicit_rating_case 1 \<noteq> implicit_rating_case 4"
  by (simp add: implicit_rating_case_def)

text \<open>
  Claim C3, as the code has it. The CASE expression of \<open>interactions_query\<close> gives one of
  1.0 to 5.0 by event type: a redemption gives 5.0 whatever else is present; without a
  redemption a favorite gives 4.0; with neither, a view count above 5 gives 3.0, above 2
  gives 2.0, and anything else (also no view row) gives 1.0. The \<open>implicit_rating\<close> of the
  trainer's query is decided by the pair's count of completed transactions: 5 from four
  on, 4 for three, 3 for two and 2 otherwise; it is one of 2 to 5 and never 1.
\<close>

theorem implicit_rating_by_source:
  "interactions_query_rating rid fid vc \<in> {1, 2, 3, 4, 5}
   \<and> interactions_query_rating (Some r) fid vc = 5
   \<and> interactions_query_rating None (Some f) vc = 4
   \<and> interactions_query_rating None None (Some c) = (if c > 5 then 3 else if c > 2 then 2 else 1)
   \<and> interactions_query_rating None None None = 1
   \<and> implicit_rating_case n = (if 4 \<le> n then 5 else if n = 3 then 4 else if n = 2 then 3 else 2)
   \<and> implicit_rating_case n \<in> {2, 3, 4, 5}
   \<and> implicit_rating_case n \<noteq> 1"
  by (simp add: interactions_query_rating_def implicit_rating_case_def)

lemma active_users_iff:
  "u \<in> set (active_users self df) \<longleftrightarrow>
     u \<in> w_user_id ` set df \<and> min_interactions self \<le> of_nat (length (filter (\<lambda>r. w_user_id r = u) df))"
  by (force simp: active_users_def interaction_count_def)

lemma w_user_id_with_recency: "w_user_id (with_recency self now i) = user_id i"
  by (simp add: with_recency_def Let_def)

lemma length_filter_with_recency:
  "length (filter (\<lambda>r. w_user_id r = u) (map (with_recency self now) df))
     = length (filter (\<lambda>i. user_id i = u) df)"
  by (induction df) (simp_all add: w_user_id_with_recency)

text \<open>
  Claim C4. A user whose number of interaction rows is strictly below
  \<open>min_interactions\<close> has no row in the table that \<open>preprocess_data\<close> returns.
\<close>

theorem inactive_user_removed:
  assumes "of_nat (length (filter (\<lambda>i. user_id i = u) df)) < min_interactions self"
  shows "u \<notin> w_user_id ` set (preprocess_data self now df)"
proof
  assume "u \<in> w_user_id ` set (preprocess_data self now df)"
  then have "u \<in> set (active_users self (map (with_recency self now) df))"
    by (auto simp: preprocess_data_def Let_def set_inner_join)
  then have "min_interactions self \<le> of_nat (length (filter (\<lambda>i. user_id i = u) df))"
    unfolding active_users_iff length_filter_with_recency by simp
  with assms show False by simp
qed

theorem inactive_user_removed_witness:
  "of_nat (length (filter (\<lambda>i. user_id i = 2) example_interactions)) < min_interactions example_engine
   \<and> 2 \<in> user_id ` set example_interactions
   \<and> 2 \<notin> w_user_id ` set (preprocess_data example_engine 100 example_interactions)"
proof -
  have h: "of_nat (length (filter (\<lambda>i. user_id i = 2) example_interactions)) < min_interactions example_engine"
    by (simp add: example_interactions_def example_engine_def init_engine_def config_get_def)
  have "2 \<in> user_id ` set example_interactions"
    by (simp add: example_interactions_def)
  with inactive_user_removed [OF h, of 100] h show ?thesis by simp
qed

lemma active_user_kept:
  assumes "i \<in> set df"
      and "min_interactions self \<le> of_nat (length (filter (\<lambda>j. user_id j = user_id i) df))"
  shows "with_recency self now i \<in> set (preprocess_data self now df)"
proof -
  let ?df = "map (with_recency self now) df"
  have "with_recency self now i \<in> set ?df"
    using assms(1) by simp
  moreover have "user_id i \<in> set (active_users self ?df)"
    unfolding active_users_iff length_filter_with_recency
    using assms by (force simp: w_user_id_with_recency)
  ultimately show ?thesis
    by (simp add: preprocess_data_def Let_def set_inner_join w_user_id_with_recency)
qed

section \<open>Properties of the model trainer and of the data loading\<close>

lemma index_mapping_zip: "index_mapping keys = zip keys [0..<length keys]"
  unfolding index_mapping_def enumerate_eq_zip
  by (subst zip_commute) simp

lemma index_mapping_nth:
  assumes "distinct keys" and "i < length keys"
  shows "map_of (index_mapping keys) (keys ! i) = Some i"
  using assms by (simp add: index_mapping_zip map_of_zip_nth)

lemma index_mapping_member:
  assumes "distinct keys" and "k \<in> set keys"
  shows "\<exists>i < length keys. keys ! i = k \<and> map_of (index_mapping keys) k = Some i"
  using assms index_mapping_nth by (metis in_set_conv_nth)

lemma pivot_values_cell:
  assumes "i < length (pivot_index df)" and "j < length (pivot_columns df)"
  shows "pivot_values df ! i ! j = pivot_cell df (pivot_index df ! i) (pivot_columns df ! j)"
  using assms by (simp add: pivot_values_def)

lemma create_user_item_matrix_Inr:
  assumes "create_user_item_matrix self df = Inr (m, self')"
  shows "frame_rows df \<noteq> [] \<and> m = pivot_values (frame_rows df)
         \<and> user_mapping self' = index_mapping (pivot_index (frame_rows df))
         \<and> item_mapping self' = index_mapping (pivot_columns (frame_rows df))"
  using assms
  by (cases df) (auto simp: create_user_item_matrix_def pivot_table_def frame_rows_def Let_def)

text \<open>
  Claim C2, as the code has it. For a user and a partner of the feature table, the cell of
  the user-item matrix at the user's index and the partner's index is the arithmetic mean of
  the ratings of all rows of that (user, partner) pair, and 0 when the pair has no row:
  \<open>pivot_table\<close> is called with its default aggregation and \<open>fill_value=0\<close>.
\<close>

theorem matrix_entry_is_mean:
  assumes "create_user_item_matrix self df = Inr (m, self')"
      and "u \<in> t_user_id ` set (frame_rows df)"
      and "p \<in> t_partner_id ` set (frame_rows df)"
  shows "\<exists>i j. map_of (user_mapping self') u = Some i
             \<and> map_of (item_mapping self') p = Some j
             \<and> i < length m \<and> j < length (m ! i)
             \<and> m ! i ! j = (if group_values (frame_rows df) u p = [] then 0
                             else mean (group_values (frame_rows df) u p))"
proof -
  let ?rows = "frame_rows df"
  have m: "m = pivot_values ?rows"
    and um: "user_mapping self' = index_mapping (pivot_index ?rows)"
    and im: "item_mapping self' = index_mapping (pivot_columns ?rows)"
    using create_user_item_matrix_Inr [OF assms(1)] by simp_all
  have "distinct (pivot_index ?rows)" and "u \<in> set (pivot_index ?rows)"
    using assms(2) by (simp_all add: pivot_index_def)
  then obtain i where i: "i < length (pivot_index ?rows)" "pivot_index ?rows ! i = u"
      "map_of (index_mapping (pivot_index ?rows)) u = Some i"
    using index_mapping_member by blast
  have "distinct (pivot_columns ?rows)" and "p \<in> set (pivot_columns ?rows)"
    using assms(3) by (simp_all add: pivot_columns_def)
  then obtain j where j: "j < length (pivot_columns ?rows)" "pivot_columns ?rows ! j = p"
      "map_of (index_mapping (pivot_columns ?rows)) p = Some j"
    using index_mapping_member by blast
  have "m ! i ! j = pivot_cell ?rows u p"
    using pivot_values_cell [OF i(1) j(1)] i(2) j(2) m by simp
  then have cell: "m ! i ! j = (if group_values ?rows u p = [] then 0
                               else mean (group_values ?rows u p))"
    by (simp add: pivot_cell_def Let_def)
  have "i < length m" and "j < length (m ! i)"
    using i(1) j(1) m by (simp_all add: pivot_values_def)
  with cell i(3) j(3) um im show ?thesis by auto
qed

lemmas matrix_defs =
  create_user_item_matrix_def pivot_table_def DataFrame_def pivot_values_def pivot_cell_def
  pivot_index_def pivot_columns_def group_values_def mean_def index_mapping_def Let_def

lemma duplicate_rows_matrix:
  "create_user_item_matrix new_trainer (DataFrame duplicate_rows) =
     Inr ([[3, 0], [0, 5]],
          \<lparr> user_mapping = [(1, 0), (2, 1)], item_mapping = [(7, 0), (8, 1)],
            reverse_item_mapping = [(0, 7), (1, 8)] \<rparr>)"
  by (simp add: duplicate_rows_def new_trainer_def matrix_defs)

lemma duplicate_rows_frame: "frame_rows (DataFrame duplicate_rows) = duplicate_rows"
  by (simp add: duplicate_rows_def DataFrame_def frame_rows_def)

theorem matrix_entry_is_mean_witness:
  "create_user_item_matrix new_trainer (DataFrame duplicate_rows) =
       Inr ([[3, 0], [0, 5]],
            \<lparr> user_mapping = [(1, 0), (2, 1)], item_mapping = [(7, 0), (8, 1)],
              reverse_item_mapping = [(0, 7), (1, 8)] \<rparr>)
   \<and> 1 \<in> t_user_id ` set (frame_rows (DataFrame duplicate_rows))
   \<and> 7 \<in> t_partner_id ` set (frame_rows (DataFrame duplicate_rows))
   \<and> 8 \<in> t_partner_id ` set (frame_rows (DataFrame duplicate_rows))
   \<and> group_values duplicate_rows 1 7 = [2, 4]
   \<and> mean (group_values duplicate_rows 1 7) = 3
   \<and> [[3, 0], [0, 5 :: rat]] ! 0 ! 0 = 3
   \<and> group_values duplicate_rows 1 8 = []
   \<and> [[3, 0], [0, 5 :: rat]] ! 0 ! 1 = 0"
proof -
  have u: "1 \<in> t_user_id ` set (frame_rows (DataFrame duplicate_rows))"
    and p7: "7 \<in> t_partner_id ` set (frame_rows (DataFrame duplicate_rows))"
    and p8: "8 \<in> t_partner_id ` set (frame_rows (DataFrame duplicate_rows))"
    unfolding duplicate_rows_frame by (simp_all add: duplicate_rows_def)
  have g7: "group_values duplicate_rows 1 7 = [2, 4]"
    and g8: "group_values duplicate_rows 1 8 = []"
    by (simp_all add: duplicate_rows_def group_values_def)
  from matrix_entry_is_mean [OF duplicate_rows_matrix u p7]
       matrix_entry_is_mean [OF duplicate_rows_matrix u p8]
       duplicate_rows_matrix u p7 p8
  show ?thesis unfolding duplicate_rows_frame g7 g8 by (simp add: mean_def)
qed

text \<open>
  When all rows of a pair carry the same rating, as the rows of \<open>fetch_training_data\<close> do
  (the rating there is a function of the pair's transaction count), the mean is that rating.
\<close>

lemma mean_equal_values:
  assumes "vs \<noteq> []" and "\<forall>x \<in> set vs. x = v"
  shows "mean vs = v"
proof -
  have "vs = replicate (length vs) v"
    using assms(2) by (simp add: replicate_length_same)
  then have "sum_list vs = of_nat (length vs) * v"
    by (metis sum_list_replicate)
  with assms(1) show ?thesis by (simp add: mean_def)
qed

text \<open>
  Claim C2 as stated fails: with the ratings 2 and 4 for the pair (user 1, partner 7) the
  stored cell is 3, their mean, and not 4, their maximum.
\<close>

theorem matrix_entry_not_maximum:
  "create_user_item_matrix new_trainer (DataFrame duplicate_rows) =
       Inr ([[3, 0], [0, 5]],
            \<lparr> user_mapping = [(1, 0), (2, 1)], item_mapping = [(7, 0), (8, 1)],
              reverse_item_mapping = [(0, 7), (1, 8)] \<rparr>)
   \<and> map_of [(1, 0), (2, 1 :: nat)] (1 :: nat) = Some 0
   \<and> map_of [(7, 0), (8, 1 :: nat)] (7 :: nat) = Some 0
   \<and> [[3, 0], [0, 5 :: rat]] ! 0 ! 0 = 3
   \<and> group_values duplicate_rows 1 7 = [2, 4]
   \<and> Max (set (group_values duplicate_rows 1 7)) = 4
   \<and> [[3, 0], [0, 5 :: rat]] ! 0 ! 0 \<noteq> Max (set (group_values duplicate_rows 1 7))"
proof -
  have g: "group_values duplicate_rows 1 7 = [2, 4]"
    by (simp add: duplicate_rows_def group_values_def)
  show ?thesis unfolding g duplicate_rows_matrix by simp
qed

text \<open>
  Claim C5 as stated fails: when no record was fetched, the matrix construction step raises
  \<open>KeyError('implicit_rating')\<close>, which is not a \<open>DataIntegrityError\<close>.
\<close>

theorem empty_input_raises_key_error:
  "create_user_item_matrix new_trainer (DataFrame [])
     = Inl (KeyError ''implicit_rating'')
   \<and> create_user_item_matrix new_trainer (DataFrame []) \<noteq> Inl DataIntegrityError"
  by (simp add: create_user_item_matrix_def pivot_table_def DataFrame_def)

text \<open>
  Claim C5, as the code has it. When no record was fetched, so that the input of
  \<open>create_user_item_matrix\<close> is the frame with no columns, the step raises
  \<open>KeyError('implicit_rating')\<close> out of \<open>pivot_table\<close>: it returns no matrix and stores no
  mapping. On fetched records it returns the matrix and the mappings of their pivot. No
  input makes it raise a \<open>DataIntegrityError\<close>.
\<close>

theorem empty_input_key_error_not_integrity_error:
  "create_user_item_matrix self (DataFrame []) = Inl (KeyError ''implicit_rating'')
   \<and> create_user_item_matrix self (DataFrame (r # rs)) =
       Inr (pivot_values (r # rs),
            self\<lparr> user_mapping := index_mapping (pivot_index (r # rs)),
                  item_mapping := index_mapping (pivot_columns (r # rs)),
                  reverse_item_mapping :=
                    map (\<lambda>(item, idx). (idx, item)) (index_mapping (pivot_columns (r # rs))) \<rparr>)
   \<and> create_user_item_matrix self df \<noteq> Inl DataIntegrityError"
  by (cases df) (simp_all add: create_user_item_matrix_def pivot_table_def DataFrame_def Let_def)

section \<open>Properties of the serving backend\<close>

lemmas backend_defs =
  get_recommendations_def get_current_user_def truthy_def favorite_recommendations_def
  category_partners_def Let_def


text \<open>
  Claim C6 as stated fails: for a session whose user id has no stored profile,
  \<open>get_recommendations\<close> raises \<open>HTTPException(404, "User not found")\<close>.
\<close>

theorem unknown_profile_raises:
  "get_recommendations (example_db []) (Some ''tok9'') = Inl (HTTPException 404 ''User not found'')"
  by (simp add: example_db_def backend_defs)

text \<open>
  Claim C7 as stated fails: a logged-in user with no favorite categories gets the empty
  list, not the popular fallback.
\<close>

theorem no_favorites_empty_list:
  "get_recommendations (example_db []) (Some ''tok1'')
     = Inr \<lparr> recommendations = [], reason = ''Based on your preferences'' \<rparr>"
  by (simp add: example_db_def example_user_def backend_defs)

text \<open>
  Claim C8 as stated fails: a user whose favorite categories name one category twice gets
  the partners of that category twice.
\<close>

theorem repeated_favorite_duplicates:
  "get_recommendations (example_db [''Wellness & Spa'', ''Wellness & Spa'']) (Some ''tok1'')
     = Inr \<lparr> recommendations = [spa1, spa1], reason = ''Based on your preferences'' \<rparr>
   \<and> \<not> distinct (map p_id [spa1, spa1])"
  by (simp add: example_db_def example_user_def spa1_def cinema2_def backend_defs)

lemma get_recommendations_cases:
  "get_recommendations db token =
     (if \<not> truthy (get_current_user db token)
      then Inr \<lparr> recommendations = take 6 (map snd (partners db)), reason = ''Popular choices'' \<rparr>
      else case map_of (users db) (the (get_current_user db token)) of
             None \<Rightarrow> Inl (HTTPException 404 ''User not found'')
           | Some user \<Rightarrow> Inr \<lparr> recommendations = take 6 (favorite_recommendations db user),
                                reason = ''Based on your preferences'' \<rparr>)"
  by (simp add: get_recommendations_def Let_def)

text \<open>
  Claim C6, as the code has it. \<open>get_recommendations\<close> raises exactly when the token's
  session names a user id with no stored profile, and what it raises then is
  \<open>HTTPException(404, "User not found")\<close>; for every other caller (no token, an unknown
  token, or a session whose user has a profile) it returns a response.
\<close>

theorem get_recommendations_raises_iff:
  "(truthy (get_current_user db token)
      \<and> map_of (users db) (the (get_current_user db token)) = None
        \<longrightarrow> get_recommendations db token = Inl (HTTPException 404 ''User not found''))
   \<and> (\<not> (truthy (get_current_user db token)
           \<and> map_of (users db) (the (get_current_user db token)) = None)
        \<longrightarrow> (\<exists>resp. get_recommendations db token = Inr resp))"
  by (auto simp: get_recommendations_cases split: option.splits)

theorem get_recommendations_raises_iff_witness:
  "truthy (get_current_user (example_db [''Entertainment'']) (Some ''tok9''))
   \<and> map_of (users (example_db [''Entertainment'']))
        (the (get_current_user (example_db [''Entertainment'']) (Some ''tok9''))) = None
   \<and> get_recommendations (example_db [''Entertainment'']) (Some ''tok9'')
        = Inl (HTTPException 404 ''User not found'')
   \<and> \<not> truthy (get_current_user (example_db [''Entertainment'']) None)
   \<and> (\<exists>resp. get_recommendations (example_db [''Entertainment'']) None = Inr resp)
   \<and> truthy (get_current_user (example_db [''Entertainment'']) (Some ''tok1''))
   \<and> map_of (users (example_db [''Entertainment'']))
        (the (get_current_user (example_db [''Entertainment'']) (Some ''tok1''))) \<noteq> None
   \<and> (\<exists>resp. get_recommendations (example_db [''Entertainment'']) (Some ''tok1'') = Inr resp)"
proof -
  let ?db = "example_db [''Entertainment'']"
  have a: "get_current_user ?db (Some ''tok9'') = Some ''9''"
    and b: "get_current_user ?db None = None"
    and c: "get_current_user ?db (Some ''tok1'') = Some ''1''"
    by (simp_all add: example_db_def get_current_user_def truthy_def)
  have u9: "map_of (users ?db) ''9'' = None" and u1: "map_of (users ?db) ''1'' \<noteq> None"
    by (simp_all add: example_db_def)
  from get_recommendations_raises_iff [of ?db "Some ''tok9''"]
       get_recommendations_raises_iff [of ?db None]
       get_recommendations_raises_iff [of ?db "Some ''tok1''"]
  show ?thesis unfolding a b c by (simp add: truthy_def u9 u1)
qed


lemma p_category_favorite:
  "p \<in> set (favorite_recommendations db user) \<Longrightarrow>
     p \<in> snd ` set (partners db) \<and> p_category p \<in> set (u_favorite_categories user)"
  by (auto simp: favorite_recommendations_def category_partners_def dest!: in_set_takeD)

lemma favorite_recommendations_empty_iff:
  "favorite_recommendations db user = []
     \<longleftrightarrow> (\<forall>c \<in> set (u_favorite_categories user). category_partners db c = [])"
  by (auto simp: favorite_recommendations_def)

text \<open>
  Claim C7, as the code has it. A caller who is not logged in gets the first six partners
  of the store under the reason "Popular choices", a list that is empty only when the store
  has no partner. A logged-in user with a profile gets partners of the favorite categories
  only, and the empty list exactly when no favorite category has a partner (so always when
  there is no favorite category): there is no fallback on that path.
\<close>

theorem fallback_only_for_anonymous:
  "(\<not> truthy (get_current_user db token) \<longrightarrow>
      get_recommendations db token
        = Inr \<lparr> recommendations = take 6 (map snd (partners db)), reason = ''Popular choices'' \<rparr>
      \<and> (take 6 (map snd (partners db)) = [] \<longleftrightarrow> partners db = []))
   \<and> (truthy (get_current_user db token)
        \<and> map_of (users db) (the (get_current_user db token)) = Some user \<longrightarrow>
      (\<exists>resp. get_recommendations db token = Inr resp
         \<and> reason resp = ''Based on your preferences''
         \<and> set (recommendations resp) \<subseteq> {p \<in> snd ` set (partners db). p_category p \<in> set (u_favorite_categories user)}
         \<and> (recommendations resp = []
              \<longleftrightarrow> (\<forall>c \<in> set (u_favorite_categories user). category_partners db c = []))))"
proof -
  have "set (take 6 (favorite_recommendations db user))
          \<subseteq> {p \<in> snd ` set (partners db). p_category p \<in> set (u_favorite_categories user)}"
    using p_category_favorite [of _ db user] by (auto dest!: in_set_takeD)
  moreover have "take 6 (favorite_recommendations db user) = []
      \<longleftrightarrow> (\<forall>c \<in> set (u_favorite_categories user). category_partners db c = [])"
    by (simp add: favorite_recommendations_empty_iff)
  ultimately show ?thesis
    by (simp add: get_recommendations_cases)
qed

theorem fallback_only_for_anonymous_witness:
  "\<not> truthy (get_current_user (example_db [''Fine Dining'']) None)
   \<and> get_recommendations (example_db [''Fine Dining'']) None
        = Inr \<lparr> recommendations = [spa1, cinema2], reason = ''Popular choices'' \<rparr>
   \<and> truthy (get_current_user (example_db [''Fine Dining'']) (Some ''tok1''))
   \<and> map_of (users (example_db [''Fine Dining'']))
        (the (get_current_user (example_db [''Fine Dining'']) (Some ''tok1'')))
        = Some (example_user ''1'' [''Fine Dining''])
   \<and> category_partners (example_db [''Fine Dining'']) ''Fine Dining'' = []
   \<and> (\<exists>resp. get_recommendations (example_db [''Fine Dining'']) (Some ''tok1'') = Inr resp
         \<and> recommendations resp = [])"
proof -
  let ?db = "example_db [''Fine Dining'']"
  have a: "get_current_user ?db None = None"
    and b: "get_current_user ?db (Some ''tok1'') = Some ''1''"
    by (simp_all add: example_db_def get_current_user_def truthy_def)
  have u: "map_of (users ?db) ''1'' = Some (example_user ''1'' [''Fine Dining''])"
    by (simp add: example_db_def)
  have p: "map snd (partners ?db) = [spa1, cinema2]"
    by (simp add: example_db_def)
  have c: "category_partners ?db ''Fine Dining'' = []"
    by (simp add: category_partners_def p spa1_def cinema2_def)
  have f: "u_favorite_categories (example_user ''1'' [''Fine Dining'']) = [''Fine Dining'']"
    by (simp add: example_user_def)
  from fallback_only_for_anonymous [of ?db None]
       fallback_only_for_anonymous [of ?db "Some ''tok1''" "example_user ''1'' [''Fine Dining'']"]
  show ?thesis unfolding a b by (auto simp: truthy_def u p c f)
qed

lemma distinct_category_slices:
  assumes "distinct (map p_id ps)" and "distinct cs"
  shows "distinct (map p_id (concat (map (\<lambda>c. take 3 (filter (\<lambda>p. p_category p = c) ps)) cs)))"
  using assms(2)
proof (induction cs)
  case Nil
  then show ?case by simp
next
  case (Cons c cs)
  let ?slice = "\<lambda>c. take 3 (filter (\<lambda>p. p_category p = c) ps)"
  have inj: "inj_on p_id (set ps)"
    using assms(1) by (simp add: distinct_map)
  have d1: "distinct (map p_id (?slice c))"
    using assms(1) by (simp add: distinct_map_filter distinct_take flip: take_map)
  have d2: "distinct (map p_id (concat (map ?slice cs)))"
    using Cons by simp
  have "p_id ` set (?slice c) \<inter> p_id ` set (concat (map ?slice cs)) = {}"
  proof (rule ccontr)
    assume "p_id ` set (?slice c) \<inter> p_id ` set (concat (map ?slice cs)) \<noteq> {}"
    then obtain p q where p: "p \<in> set (?slice c)" and q: "q \<in> set (concat (map ?slice cs))"
      and eq: "p_id p = p_id q" by auto
    from p have p': "p \<in> set ps" "p_category p = c"
      by (auto dest!: in_set_takeD)
    from q obtain c' where c': "c' \<in> set cs" "q \<in> set ps" "p_category q = c'"
      by (auto dest!: in_set_takeD)
    from inj eq p'(1) c'(2) have "p = q" by (auto dest: inj_onD)
    with p'(2) c'(1,3) Cons.prems show False by auto
  qed
  with d1 d2 show ?case by simp
qed

text \<open>
  Claim C8, as the code has it. A returned list has at most six entries, whatever
  \<open>num_recommendations\<close> is (six is within its default of 20); it has no duplicate partner
  id when the partner ids of the store are distinct and the favorite categories of the
  logged-in user are distinct.
\<close>

theorem recommendations_bounded_distinct:
  assumes "get_recommendations db token = Inr resp"
  shows "length (recommendations resp) \<le> 6
         \<and> (distinct (map p_id (map snd (partners db)))
              \<and> (\<forall>user. truthy (get_current_user db token)
                     \<and> map_of (users db) (the (get_current_user db token)) = Some user
                     \<longrightarrow> distinct (u_favorite_categories user))
            \<longrightarrow> distinct (map p_id (recommendations resp)))
         \<and> (config ''num_recommendations'' = None \<longrightarrow>
              of_nat (length (recommendations resp)) \<le> num_recommendations (init_engine config))"
proof -
  have len: "length (recommendations resp) \<le> 6"
    using assms by (auto simp: get_recommendations_cases split: if_splits option.splits)
  have dist: "distinct (map p_id (recommendations resp))"
    if ps: "distinct (map p_id (map snd (partners db)))"
    and favs: "\<forall>user. truthy (get_current_user db token)
                 \<and> map_of (users db) (the (get_current_user db token)) = Some user
                 \<longrightarrow> distinct (u_favorite_categories user)"
  proof (cases "truthy (get_current_user db token)")
    case False
    with assms have "recommendations resp = take 6 (map snd (partners db))"
      by (auto simp: get_recommendations_cases)
    with ps show ?thesis by (simp add: distinct_take flip: take_map)
  next
    case True
    with assms obtain user where u: "map_of (users db) (the (get_current_user db token)) = Some user"
      and r: "recommendations resp = take 6 (favorite_recommendations db user)"
      by (auto simp: get_recommendations_cases split: option.splits)
    from favs True u have "distinct (u_favorite_categories user)" by blast
    with ps have "distinct (map p_id (favorite_recommendations db user))"
      unfolding favorite_recommendations_def category_partners_def
      by (rule distinct_category_slices)
    then show ?thesis unfolding r by (simp add: distinct_take flip: take_map)
  qed
  have "rat_of_nat (length (recommendations resp)) \<le> 6"
    using len by (metis of_nat_le_iff of_nat_numeral)
  then have "config ''num_recommendations'' = None \<Longrightarrow>
      of_nat (length (recommendations resp)) \<le> num_recommendations (init_engine config)"
    by (simp add: init_engine_def config_get_def)
  with len dist show ?thesis by blast
qed


lemma catalog_favorites:
  "favorite_recommendations catalog_db catalog_user =
     catalog_recommendations
       @ [example_partner ''4'' ''Entertainment'', example_partner ''7'' ''Entertainment'',
          example_partner ''11'' ''Entertainment'']"
  by (simp add: catalog_db_def catalog_user_def catalog_recommendations_def example_user_def
      example_partner_def favorite_recommendations_def category_partners_def)

theorem recommendations_bounded_distinct_witness:
  "get_recommendations catalog_db (Some ''tok1'')
     = Inr \<lparr> recommendations = catalog_recommendations, reason = ''Based on your preferences'' \<rparr>
   \<and> distinct (map p_id (map snd (partners catalog_db)))
   \<and> truthy (get_current_user catalog_db (Some ''tok1''))
   \<and> map_of (users catalog_db) (the (get_current_user catalog_db (Some ''tok1''))) = Some catalog_user
   \<and> distinct (u_favorite_categories catalog_user)
   \<and> (Map.empty :: config) ''num_recommendations'' = None
   \<and> length (favorite_recommendations catalog_db catalog_user) = 9
   \<and> length catalog_recommendations = 6
   \<and> map p_id catalog_recommendations = [''1'', ''3'', ''6'', ''2'', ''5'', ''8'']
   \<and> distinct (map p_id catalog_recommendations)
   \<and> rat_of_nat (length catalog_recommendations) \<le> num_recommendations (init_engine Map.empty)"
proof -
  let ?resp = "\<lparr> recommendations = catalog_recommendations, reason = ''Based on your preferences'' \<rparr>"
  have g: "get_current_user catalog_db (Some ''tok1'') = Some ''1''"
    by (simp add: catalog_db_def get_current_user_def truthy_def)
  have u: "map_of (users catalog_db) ''1'' = Some catalog_user"
    by (simp add: catalog_db_def)
  have n: "length (favorite_recommendations catalog_db catalog_user) = 9"
    and six: "take 6 (favorite_recommendations catalog_db catalog_user) = catalog_recommendations"
    unfolding catalog_favorites by (simp_all add: catalog_recommendations_def)
  have r: "get_recommendations catalog_db (Some ''tok1'') = Inr ?resp"
    by (simp add: get_recommendations_cases g u six truthy_def)
  have ps: "distinct (map p_id (map snd (partners catalog_db)))"
    by (simp add: catalog_db_def example_partner_def)
  have fs: "distinct (u_favorite_categories catalog_user)"
    by (simp add: catalog_user_def example_user_def)
  have ids: "map p_id catalog_recommendations = [''1'', ''3'', ''6'', ''2'', ''5'', ''8'']"
    by (simp add: catalog_recommendations_def example_partner_def)
  have len: "length catalog_recommendations = 6"
    by (simp add: catalog_recommendations_def)
  from recommendations_bounded_distinct [OF r, of Map.empty] r ps fs g u n ids len
  show ?thesis by (simp add: truthy_def)
qed

lemma map_of_update_partner:
  "map_of (update_partner k f ps) k' =
     (if k' = k then map_option f (map_of ps k) else map_of ps k')"
  by (induction ps) (auto simp: update_partner_def)

lemma create_review_authenticated:
  assumes "truthy (get_current_user db token)"
  shows "\<exists>db' resp. create_review db now body token = Inr (db', resp)
           \<and> sessions db' = sessions db \<and> users db' = users db
           \<and> reviews db' = reviews db @ [review resp]
           \<and> r_partner_id (review resp) = b_partner_id body
           \<and> r_rating (review resp) = b_rating body
           \<and> stored_rating db' (b_partner_id body)
               = map_option (\<lambda>r. (r + of_int (b_rating body)) / 2) (stored_rating db (b_partner_id body))"
  using assms
  by (auto simp: create_review_def Let_def stored_rating_def map_of_update_partner
      option.map_comp comp_def split: option.splits)

lemma get_current_user_sessions:
  "sessions db' = sessions db \<Longrightarrow> get_current_user db' token = get_current_user db token"
  by (simp add: get_current_user_def)

text \<open>
  The rating the store holds after a sequence of reviews of one partner: each review halves
  the distance to its own number of stars.
\<close>

lemma submit_reviews_rating:
  assumes "truthy (get_current_user db token)"
      and "\<forall>b \<in> set bodies. b_partner_id b = pid"
      and "stored_rating db pid = Some r0"
  shows "\<exists>db'. submit_reviews db now token bodies = Inr db'
           \<and> stored_rating db' pid = Some (foldl (\<lambda>r b. (r + of_int (b_rating b)) / 2) r0 bodies)
           \<and> map r_rating (filter (\<lambda>r. r_partner_id r = pid) (reviews db'))
               = map r_rating (filter (\<lambda>r. r_partner_id r = pid) (reviews db)) @ map b_rating bodies"
  using assms
proof (induction bodies arbitrary: db r0)
  case Nil
  then show ?case by simp
next
  case (Cons b bodies)
  from Cons.prems(2) have pid: "b_partner_id b = pid" by simp
  from create_review_authenticated [OF Cons.prems(1), of now b]
  obtain db1 resp where step: "create_review db now b token = Inr (db1, resp)"
    and s: "sessions db1 = sessions db"
    and rv: "reviews db1 = reviews db @ [review resp]"
      "r_partner_id (review resp) = pid" "r_rating (review resp) = b_rating b"
    and r1: "stored_rating db1 pid = Some ((r0 + of_int (b_rating b)) / 2)"
    using Cons.prems(3) pid by auto
  have auth: "truthy (get_current_user db1 token)"
    using Cons.prems(1) get_current_user_sessions [OF s] by simp
  from Cons.IH [OF auth _ r1] Cons.prems(2)
  obtain db' where rest: "submit_reviews db1 now token bodies = Inr db'"
    "stored_rating db' pid = Some (foldl (\<lambda>r b. (r + of_int (b_rating b)) / 2) ((r0 + of_int (b_rating b)) / 2) bodies)"
    "map r_rating (filter (\<lambda>r. r_partner_id r = pid) (reviews db'))
       = map r_rating (filter (\<lambda>r. r_partner_id r = pid) (reviews db1)) @ map b_rating bodies"
    by auto
  show ?case using step rest rv by simp
qed

lemma review_of_partner: "b_partner_id (review_of stars) = ''1''"
  by (simp add: review_of_def)

text \<open>
  Claim C9. A review by a logged-in user of a partner in the store sets the partner's
  rating to (old rating + stars) / 2. There are two reviews of one partner whose two orders
  leave different ratings, and a sequence of reviews after which the rating is not the
  arithmetic mean of the partner's reviews.
\<close>

theorem review_rating_update_order_dependent:
  "(truthy (get_current_user db token) \<and> stored_rating db (b_partner_id body) = Some old
      \<longrightarrow> (\<exists>db' resp. create_review db now body token = Inr (db', resp)
             \<and> stored_rating db' (b_partner_id body) = Some ((old + of_int (b_rating body)) / 2)))
   \<and> (\<exists>db now token b1 b2 db12 db21.
         submit_reviews db now token [b1, b2] = Inr db12
         \<and> submit_reviews db now token [b2, b1] = Inr db21
         \<and> b_partner_id b1 = b_partner_id b2
         \<and> stored_rating db12 (b_partner_id b1) \<noteq> stored_rating db21 (b_partner_id b1))
   \<and> (\<exists>db now token b1 b2 db'.
         reviews db = []
         \<and> submit_reviews db now token [b1, b2] = Inr db'
         \<and> stored_rating db' (b_partner_id b1)
             \<noteq> Some (mean (map (\<lambda>r. of_int (r_rating r))
                              (filter (\<lambda>r. r_partner_id r = b_partner_id b1) (reviews db')))))"
proof -
  let ?db = "example_db []"
  let ?tok = "Some ''tok1''"
  have auth: "truthy (get_current_user ?db ?tok)"
    by (simp add: example_db_def get_current_user_def truthy_def)
  have old: "stored_rating ?db ''1'' = Some 4"
    by (simp add: example_db_def stored_rating_def spa1_def)
  have none: "reviews ?db = []"
    by (simp add: example_db_def)
  have pid: "\<forall>b \<in> set [review_of 1, review_of 5]. b_partner_id b = ''1''"
    "\<forall>b \<in> set [review_of 5, review_of 1]. b_partner_id b = ''1''"
    by (simp_all add: review_of_def)
  from submit_reviews_rating [OF auth pid(1) old, of "''t''"]
  obtain db12 where a: "submit_reviews ?db ''t'' ?tok [review_of 1, review_of 5] = Inr db12"
    "stored_rating db12 ''1'' = Some (15 / 4)"
    "map r_rating (filter (\<lambda>r. r_partner_id r = ''1'') (reviews db12)) = [1, 5]"
    by (auto simp: review_of_def none)
  from submit_reviews_rating [OF auth pid(2) old, of "''t''"]
  obtain db21 where b: "submit_reviews ?db ''t'' ?tok [review_of 5, review_of 1] = Inr db21"
    "stored_rating db21 ''1'' = Some (11 / 4)"
    by (auto simp: review_of_def)
  have update: "truthy (get_current_user db token) \<and> stored_rating db (b_partner_id body) = Some old
      \<longrightarrow> (\<exists>db' resp. create_review db now body token = Inr (db', resp)
             \<and> stored_rating db' (b_partner_id body) = Some ((old + of_int (b_rating body)) / 2))"
    using create_review_authenticated [of db token now body] by auto
  have order: "\<exists>db now token b1 b2 db12 db21.
         submit_reviews db now token [b1, b2] = Inr db12
         \<and> submit_reviews db now token [b2, b1] = Inr db21
         \<and> b_partner_id b1 = b_partner_id b2
         \<and> stored_rating db12 (b_partner_id b1) \<noteq> stored_rating db21 (b_partner_id b1)"
    by (rule exI [of _ ?db], rule exI [of _ "''t''"], rule exI [of _ ?tok],
        rule exI [of _ "review_of 1"], rule exI [of _ "review_of 5"],
        rule exI [of _ db12], rule exI [of _ db21])
       (simp add: a b review_of_partner del: submit_reviews.simps)
  have "map (\<lambda>r. rat_of_int (r_rating r)) (filter (\<lambda>r. r_partner_id r = ''1'') (reviews db12))
          = map rat_of_int (map r_rating (filter (\<lambda>r. r_partner_id r = ''1'') (reviews db12)))"
    by simp
  then have m: "mean (map (\<lambda>r. rat_of_int (r_rating r))
                  (filter (\<lambda>r. r_partner_id r = ''1'') (reviews db12))) = 3"
    unfolding a(3) by (simp add: mean_def)
  have not_mean: "\<exists>db now token b1 b2 db'.
         reviews db = []
         \<and> submit_reviews db now token [b1, b2] = Inr db'
         \<and> stored_rating db' (b_partner_id b1)
             \<noteq> Some (mean (map (\<lambda>r. of_int (r_rating r))
                              (filter (\<lambda>r. r_partner_id r = b_partner_id b1) (reviews db'))))"
    by (rule exI [of _ ?db], rule exI [of _ "''t''"], rule exI [of _ ?tok],
        rule exI [of _ "review_of 1"], rule exI [of _ "review_of 5"], rule exI [of _ db12])
       (simp add: a none m review_of_partner del: submit_reviews.simps)
  from update order not_mean show ?thesis by blast
qed

theorem review_rating_update_order_dependent_witness:
  "truthy (get_current_user (example_db []) (Some ''tok1''))
   \<and> stored_rating (example_db []) (b_partner_id (review_of 1)) = Some 4
   \<and> (\<exists>db' resp. create_review (example_db []) ''2025-01-01T10:00:00'' (review_of 1) (Some ''tok1'')
                     = Inr (db', resp)
         \<and> stored_rating db' ''1'' = Some (5 / 2))"
proof -
  have auth: "truthy (get_current_user (example_db []) (Some ''tok1''))"
    by (simp add: example_db_def get_current_user_def truthy_def)
  have old: "stored_rating (example_db []) (b_partner_id (review_of 1)) = Some 4"
    by (simp add: example_db_def stored_rating_def spa1_def review_of_def)
  from review_rating_update_order_dependent
         [of "example_db []" "Some ''tok1''" "review_of 1" 4 "''2025-01-01T10:00:00''"]
       auth old
  show ?thesis by (simp add: review_of_def)
qed

end
